theory Spec2Isabelle
  imports Complex_Main
begin

section \<open>Tensors\<close>

text \<open>
  The file \<^verbatim>\<open>utils/loss.py\<close> wraps a compiled extension module \<^verbatim>\<open>emd\<close> in an autograd
  function. The wrapper works on torch tensors: a tensor has an element type (its dtype), a
  shape and one element at every index inside the shape. Floating-point elements are
  idealised as reals: the theorems below speak about which buffers are created, which
  values they are filled with and which operations are applied to them, never about
  rounding. Elements of integer tensors (\<^verbatim>\<open>torch.int32\<close>) are integers; the
  wrapper only ever stores \<open>0\<close> and \<open>-1\<close> in them, so no wrap-around arises.
\<close>

datatype dtype = Float32 | Float64 | Int32 | Int64

record 'a tensor =
  dtype :: dtype
  shape :: "nat list"
  elem :: "nat list \<Rightarrow> 'a"

text \<open>
  \<^verbatim>\<open>torch.get_default_dtype()\<close> is \<^verbatim>\<open>torch.float32\<close> when the interpreter starts, and no file of
  the repository changes it.
\<close>

definition default_dtype :: dtype where
  "default_dtype = Float32"

text \<open>\<^verbatim>\<open>torch.zeros(*size, dtype=...)\<close>: a new tensor, every element zero.\<close>

definition torch_zeros :: "nat list \<Rightarrow> dtype option \<Rightarrow> ('a::zero) tensor" where
  "torch_zeros sh dt =
     \<lparr>dtype = (case dt of None \<Rightarrow> default_dtype | Some d \<Rightarrow> d),
      shape = sh,
      elem = (\<lambda>_. 0)\<rparr>"

text \<open>\<^verbatim>\<open>t - c\<close> for a tensor \<open>t\<close> and a Python integer \<open>c\<close>: elementwise, same dtype and shape.\<close>

definition sub_scalar :: "int tensor \<Rightarrow> int \<Rightarrow> int tensor" where
  "sub_scalar t c = t\<lparr>elem := (\<lambda>ix. elem t ix - c)\<rparr>"

text \<open>
  \<^verbatim>\<open>t.contiguous().float().cuda()\<close>: \<^verbatim>\<open>contiguous\<close> and \<^verbatim>\<open>cuda\<close> change the memory layout
  and the device, \<^verbatim>\<open>float\<close> converts the elements to single precision.
\<close>

definition to_float :: "real tensor \<Rightarrow> real tensor" where
  "to_float t = t\<lparr>dtype := Float32\<rparr>"

text \<open>
  All index tuples of a shape in row-major order, and \<^verbatim>\<open>torch.mean\<close>: the sum of all elements
  divided by their number; of a tensor without elements it is \<^verbatim>\<open>nan\<close>.
\<close>

fun indices :: "nat list \<Rightarrow> nat list list" where
  "indices [] = [[]]"
| "indices (d # ds) = concat (map (\<lambda>i. map ((#) i) (indices ds)) [0..<d])"

datatype scalar = NaN | Val real

definition torch_mean :: "real tensor \<Rightarrow> scalar" where
  "torch_mean t =
     (if prod_list (shape t) = 0 then NaN
      else Val (sum_list (map (elem t) (indices (shape t))) / real (prod_list (shape t))))"

section \<open>The autograd function \<^verbatim>\<open>emdFunction\<close>\<close>

text \<open>
  The work buffers that \<^verbatim>\<open>emdFunction.forward\<close> creates and hands to \<^verbatim>\<open>emd.forward\<close>, which
  writes its results into them.
\<close>

record buffers =
  dist :: "real tensor"
  assignment :: "int tensor"
  price :: "real tensor"
  assignment_inv :: "int tensor"
  bid :: "int tensor"
  bid_increments :: "real tensor"
  max_increments :: "real tensor"
  unass_idx :: "int tensor"
  unass_cnt :: "int tensor"
  unass_cnt_sum :: "int tensor"
  cnt_tmp :: "int tensor"
  max_idx :: "int tensor"

text \<open>Lines 78 to 89 of \<^verbatim>\<open>utils/loss.py\<close>, for inputs of shapes \<open>(batchsize, n, _)\<close> and \<open>(_, m, _)\<close>.\<close>

definition alloc_buffers :: "nat \<Rightarrow> nat \<Rightarrow> nat \<Rightarrow> buffers" where
  "alloc_buffers batchsize n m =
     \<lparr>dist = torch_zeros [batchsize, n] None,
      assignment = sub_scalar (torch_zeros [batchsize, n] (Some Int32)) 1,
      price = torch_zeros [batchsize, m] None,
      assignment_inv = sub_scalar (torch_zeros [batchsize, m] (Some Int32)) 1,
      bid = torch_zeros [batchsize, n] (Some Int32),
      bid_increments = torch_zeros [batchsize, n] None,
      max_increments = torch_zeros [batchsize, m] None,
      unass_idx = torch_zeros [batchsize * n] (Some Int32),
      unass_cnt = torch_zeros [512] (Some Int32),
      unass_cnt_sum = torch_zeros [512] (Some Int32),
      cnt_tmp = torch_zeros [512] (Some Int32),
      max_idx = torch_zeros [batchsize * m] (Some Int32)\<rparr>"

text \<open>
  The allocations of a call are an effect; the model records them as the list of the
  buffers created so far, in the order of the source.
\<close>

datatype buffer_name =
  Dist | Assignment | Assignment_inv | Price | Bid | Bid_increments | Max_increments
  | Unass_idx | Max_idx | Unass_cnt | Unass_cnt_sum | Cnt_tmp

definition alloc_order :: "buffer_name list" where
  "alloc_order =
     [Dist, Assignment, Assignment_inv, Price, Bid, Bid_increments, Max_increments,
      Unass_idx, Max_idx, Unass_cnt, Unass_cnt_sum, Cnt_tmp]"

text \<open>
  The extension functions \<^verbatim>\<open>emd.forward\<close> and \<^verbatim>\<open>emd.backward\<close> are compiled code outside
  \<^verbatim>\<open>utils/loss.py\<close>. The wrapper is modelled for an arbitrary extension: \<^verbatim>\<open>emd.forward\<close>
  reads the two point sets, \<open>eps\<close> and \<open>iters\<close> and overwrites the work buffers;
  \<^verbatim>\<open>emd.backward\<close> reads the saved tensors and the incoming gradient and overwrites the
  gradient buffer it is given.
\<close>

type_synonym emd_forward_fn =
  "real tensor \<Rightarrow> real tensor \<Rightarrow> buffers \<Rightarrow> real \<Rightarrow> int \<Rightarrow> buffers"

type_synonym emd_backward_fn =
  "real tensor \<Rightarrow> real tensor \<Rightarrow> real tensor \<Rightarrow> real tensor \<Rightarrow> int tensor \<Rightarrow> real tensor"

text \<open>The autograd context: what \<^verbatim>\<open>ctx.save_for_backward\<close> stored, if anything.\<close>

record ctx =
  saved_tensors :: "(real tensor \<times> real tensor \<times> int tensor) option"

definition new_ctx :: ctx where
  "new_ctx = \<lparr>saved_tensors = None\<rparr>"

datatype error = AssertionError | ValueError

record forward_result =
  out_dist :: "real tensor"
  out_assignment :: "int tensor"
  out_ctx :: ctx

text \<open>
  \<^verbatim>\<open>emdFunction.forward(ctx, xyz1, xyz2, eps, iters)\<close>. Unpacking \<^verbatim>\<open>xyz1.size()\<close> into three
  names raises \<^verbatim>\<open>ValueError\<close> unless the tensor has three dimensions; each \<^verbatim>\<open>assert\<close> that
  fails raises \<^verbatim>\<open>AssertionError\<close>. The second component is the list of work buffers
  allocated when the call ends.
\<close>

definition forward ::
  "emd_forward_fn \<Rightarrow> ctx \<Rightarrow> real tensor \<Rightarrow> real tensor \<Rightarrow> real \<Rightarrow> int
     \<Rightarrow> (error + forward_result) \<times> buffer_name list" where
  "forward emd_fwd c xyz1 xyz2 eps iters =
     (case shape xyz1 of
        [batchsize, n, d1] \<Rightarrow>
          (case shape xyz2 of
             [batchsize2, m, d2] \<Rightarrow>
               if n \<noteq> m then (Inl AssertionError, [])
               else if batchsize \<noteq> batchsize2 then (Inl AssertionError, [])
               else if n mod 1024 \<noteq> 0 then (Inl AssertionError, [])
               else if \<not> batchsize \<le> 512 then (Inl AssertionError, [])
               else
                 let xyz1' = to_float xyz1;
                     xyz2' = to_float xyz2;
                     bufs = alloc_buffers batchsize n m;
                     bufs' = emd_fwd xyz1' xyz2' bufs eps iters
                 in (Inr \<lparr>out_dist = dist bufs',
                          out_assignment = assignment bufs',
                          out_ctx = c\<lparr>saved_tensors := Some (xyz1', xyz2', assignment bufs')\<rparr>\<rparr>,
                     alloc_order)
           | _ \<Rightarrow> (Inl ValueError, []))
      | _ \<Rightarrow> (Inl ValueError, []))"

text \<open>
  \<^verbatim>\<open>emdFunction.backward(ctx, graddist, gradidx)\<close>. Unpacking \<^verbatim>\<open>ctx.saved_tensors\<close> into
  three names raises \<^verbatim>\<open>ValueError\<close> when nothing was saved. Only \<open>gradxyz1\<close> is handed to
  \<^verbatim>\<open>emd.backward\<close>. The result is the tuple \<open>(gradxyz1, gradxyz2, None, None)\<close>.
\<close>

definition backward ::
  "emd_backward_fn \<Rightarrow> ctx \<Rightarrow> real tensor \<Rightarrow> 'g
     \<Rightarrow> error + (real tensor \<times> real tensor \<times> unit option \<times> unit option)" where
  "backward emd_bwd c graddist gradidx =
     (case saved_tensors c of
        None \<Rightarrow> Inl ValueError
      | Some (xyz1, xyz2, asg) \<Rightarrow>
          let gradxyz1 = torch_zeros (shape xyz1) None;
              gradxyz2 = torch_zeros (shape xyz2) None;
              gradxyz1' = emd_bwd xyz1 xyz2 gradxyz1 graddist asg
          in Inr (gradxyz1', gradxyz2, None, None))"

section \<open>The module \<^verbatim>\<open>emdModule\<close> and the loss \<^verbatim>\<open>emd_loss\<close>\<close>

text \<open>
  \<^verbatim>\<open>emdModule.forward(self, input1, input2, eps=0.005, iters=50)\<close>: an omitted keyword
  argument is \<open>None\<close> here. \<^verbatim>\<open>emdFunction.apply\<close> runs \<open>forward\<close> with a context of its own.
\<close>

definition emdModule_forward ::
  "emd_forward_fn \<Rightarrow> real tensor \<Rightarrow> real tensor \<Rightarrow> real option \<Rightarrow> int option
     \<Rightarrow> (error + forward_result) \<times> buffer_name list" where
  "emdModule_forward emd_fwd input1 input2 eps iters =
     forward emd_fwd new_ctx input1 input2
       (case eps of None \<Rightarrow> 0.005 | Some e \<Rightarrow> e)
       (case iters of None \<Rightarrow> 50 | Some k \<Rightarrow> k)"

text \<open>
  \<^verbatim>\<open>emd_loss(output, gt)\<close>: element \<open>[0]\<close> of the pair the module returns is \<open>dist\<close>.
\<close>

definition emd_loss :: "emd_forward_fn \<Rightarrow> real tensor \<Rightarrow> real tensor \<Rightarrow> error + scalar" where
  "emd_loss emd_fwd output gt =
     (case fst (emdModule_forward emd_fwd output gt None None) of
        Inl e \<Rightarrow> Inl e
      | Inr r \<Rightarrow> Inr (torch_mean (out_dist r)))"

section \<open>The extension module \<^verbatim>\<open>emd\<close>\<close>

text \<open>
  Modelled from the spec: the compiled extension \<^verbatim>\<open>emd\<close> with its functions \<^verbatim>\<open>emd.forward\<close>
  and \<^verbatim>\<open>emd.backward\<close>, whose code is not among the Python sources. Every definition of
  this section follows the description of the forward matching solver and of the backward
  gradient solver. A point is a triple of coordinates and the cost of a pair is the squared
  Euclidean distance.
\<close>

type_synonym point = "real \<times> real \<times> real"

definition point_of :: "real tensor \<Rightarrow> nat \<Rightarrow> nat \<Rightarrow> point" where
  "point_of t b i = (elem t [b, i, 0], elem t [b, i, 1], elem t [b, i, 2])"

definition sqdist :: "point \<Rightarrow> point \<Rightarrow> real" where
  "sqdist p q =
     (case p of (x1, y1, z1) \<Rightarrow> case q of (x2, y2, z2) \<Rightarrow>
        (x1 - x2)\<^sup>2 + (y1 - y2)\<^sup>2 + (z1 - z2)\<^sup>2)"

subsection \<open>The auction of one batch element\<close>

text \<open>
  Modelled from the spec: the solver state of one batch element of the compiled
  extension, row \<open>b\<close> of each work buffer the rounds use.
  Indices of A-points and B-points are natural numbers below \<open>n\<close>; the entries of
  \<open>asg\<close>, \<open>inv\<close> and \<open>bidt\<close> are the integers stored in the buffers, \<open>-1\<close> for none.
\<close>

record auction =
  asg :: "nat \<Rightarrow> int"
  inv :: "nat \<Rightarrow> int"
  prc :: "nat \<Rightarrow> real"
  bidt :: "nat \<Rightarrow> int"
  binc :: "nat \<Rightarrow> real"
  maxinc :: "nat \<Rightarrow> real"
  dst :: "nat \<Rightarrow> real"

text \<open>
  Modelled from the spec: the choice of the best candidate and of the highest bidder in
  the compiled extension, as the first index of a list at which a function is least, or
  greatest; and the A-points that are unassigned.
\<close>

fun arg_min_on :: "(nat \<Rightarrow> real) \<Rightarrow> nat \<Rightarrow> nat list \<Rightarrow> nat" where
  "arg_min_on f j [] = j"
| "arg_min_on f j (k # ks) = arg_min_on f (if f k < f j then k else j) ks"

fun arg_max_on :: "(nat \<Rightarrow> real) \<Rightarrow> nat \<Rightarrow> nat list \<Rightarrow> nat" where
  "arg_max_on f w [] = w"
| "arg_max_on f w (k # ks) = arg_max_on f (if f w < f k then k else w) ks"

definition unassigned :: "nat \<Rightarrow> auction \<Rightarrow> nat list" where
  "unassigned n s = filter (\<lambda>i. asg s i = - 1) [0..<n]"

text \<open>
  Modelled from the spec: step 2 of the forward algorithm, the bid of one unassigned
  A-point \<open>i\<close>, computed by the compiled extension. The candidates are all of B. The
  adjusted cost of candidate \<open>j\<close> is \<open>cost(i, j) - price[j]\<close> with
  \<open>cost(i, j) = ||xyz1[i] - xyz2[j]||^2 + eps * reg i j\<close>, where \<open>reg\<close> is the noise or
  regulariser term the description leaves open. The best candidate is the one of least
  adjusted cost (the lowest index among equals); the increment is the gap between the
  second-best and the best adjusted cost, zero when there is no second candidate.
\<close>

definition adjusted ::
  "(nat \<Rightarrow> nat \<Rightarrow> real) \<Rightarrow> real \<Rightarrow> (nat \<Rightarrow> point) \<Rightarrow> (nat \<Rightarrow> point) \<Rightarrow> auction
     \<Rightarrow> nat \<Rightarrow> nat \<Rightarrow> real" where
  "adjusted reg eps p q s i j = sqdist (p i) (q j) + eps * reg i j - prc s j"

definition place_bid ::
  "(nat \<Rightarrow> nat \<Rightarrow> real) \<Rightarrow> real \<Rightarrow> nat \<Rightarrow> (nat \<Rightarrow> point) \<Rightarrow> (nat \<Rightarrow> point)
     \<Rightarrow> nat \<Rightarrow> auction \<Rightarrow> auction" where
  "place_bid reg eps n p q i s =
     (let v = adjusted reg eps p q s i;
          best = arg_min_on v 0 [1..<n];
          gap = (case filter (\<lambda>j. j \<noteq> best) [0..<n] of
                   [] \<Rightarrow> 0
                 | k # ks \<Rightarrow> v (arg_min_on v k ks) - v best)
      in s\<lparr>bidt := (bidt s)(i := int best), binc := (binc s)(i := gap)\<rparr>)"

text \<open>
  Modelled from the spec: step 3 of the forward algorithm for one B-point \<open>j\<close>, computed by
  the compiled extension. Among the A-points that bid for \<open>j\<close> in this round the highest
  bidder wins (the lowest index among equals): the price of \<open>j\<close> rises by the winning
  increment, the previous occupant of \<open>j\<close>, if any, becomes unassigned, and the winner and
  \<open>j\<close> are assigned to each other.
\<close>

definition award :: "nat list \<Rightarrow> auction \<Rightarrow> nat \<Rightarrow> auction" where
  "award unass s j =
     (case filter (\<lambda>i. bidt s i = int j) unass of
        [] \<Rightarrow> s
      | w0 # ws \<Rightarrow>
          let w = arg_max_on (binc s) w0 ws;
              m = binc s w;
              prev = inv s j;
              asg1 = (if prev \<noteq> - 1 then (asg s)(nat prev := - 1) else asg s)
          in s\<lparr>maxinc := (maxinc s)(j := m),
                prc := (prc s)(j := prc s j + m),
                asg := asg1(w := int j),
                inv := (inv s)(j := int w)\<rparr>)"

text \<open>
  Modelled from the spec: one round of the compiled extension. Every A-point that is
  unassigned when the round starts bids; then the bids are resolved for each B-point in
  turn.
\<close>

definition auction_round ::
  "(nat \<Rightarrow> nat \<Rightarrow> real) \<Rightarrow> real \<Rightarrow> nat \<Rightarrow> (nat \<Rightarrow> point) \<Rightarrow> (nat \<Rightarrow> point)
     \<Rightarrow> auction \<Rightarrow> auction" where
  "auction_round reg eps n p q s =
     (let unass = unassigned n s;
          s1 = fold (place_bid reg eps n p q) unass s
      in fold (\<lambda>j t. award unass t j) [0..<n] s1)"

text \<open>
  Modelled from the spec: step 4, the round loop of the compiled extension. It stops when
  no A-point is unassigned or when \<open>iters\<close> rounds have run.
\<close>

fun rounds ::
  "nat \<Rightarrow> (nat \<Rightarrow> nat \<Rightarrow> real) \<Rightarrow> real \<Rightarrow> nat \<Rightarrow> (nat \<Rightarrow> point) \<Rightarrow> (nat \<Rightarrow> point)
     \<Rightarrow> auction \<Rightarrow> auction" where
  "rounds 0 reg eps n p q s = s"
| "rounds (Suc k) reg eps n p q s =
     (if unassigned n s = [] then s else rounds k reg eps n p q (auction_round reg eps n p q s))"

text \<open>
  Modelled from the spec: step 5 of the compiled extension. The distance of a matched
  A-point is the squared distance to its partner; the entry of an unmatched A-point keeps
  the value of the buffer, which the wrapper created as zero.
\<close>

definition final_dist :: "nat \<Rightarrow> (nat \<Rightarrow> point) \<Rightarrow> (nat \<Rightarrow> point) \<Rightarrow> auction \<Rightarrow> auction" where
  "final_dist n p q s =
     s\<lparr>dst := (\<lambda>i. if i < n \<and> 0 \<le> asg s i then sqdist (p i) (q (nat (asg s i))) else dst s i)\<rparr>"

subsection \<open>The extension on the buffers of the wrapper\<close>

text \<open>
  Modelled from the spec: how the compiled extension reads row \<open>b\<close> of the work buffers
  as the state of one batch element, and writes rows back.
\<close>

definition slice :: "nat \<Rightarrow> buffers \<Rightarrow> auction" where
  "slice b bufs =
     \<lparr>asg = (\<lambda>i. elem (assignment bufs) [b, i]),
      inv = (\<lambda>j. elem (assignment_inv bufs) [b, j]),
      prc = (\<lambda>j. elem (price bufs) [b, j]),
      bidt = (\<lambda>i. elem (bid bufs) [b, i]),
      binc = (\<lambda>i. elem (bid_increments bufs) [b, i]),
      maxinc = (\<lambda>j. elem (max_increments bufs) [b, j]),
      dst = (\<lambda>i. elem (dist bufs) [b, i])\<rparr>"

definition scatter :: "nat \<Rightarrow> nat \<Rightarrow> 'a tensor \<Rightarrow> (nat \<Rightarrow> nat \<Rightarrow> 'a) \<Rightarrow> 'a tensor" where
  "scatter batchsize n t rows =
     t\<lparr>elem := (\<lambda>ix. case ix of
                  [b, i] \<Rightarrow> if b < batchsize \<and> i < n then rows b i else elem t ix
                | _ \<Rightarrow> elem t ix)\<rparr>"

text \<open>
  Modelled from the spec: \<^verbatim>\<open>emd.forward\<close>, the forward function of the compiled extension,
  which is not part of \<^verbatim>\<open>utils/loss.py\<close>. Every batch element is solved on its own, from the
  state the buffers hold when the function is called, for \<open>iters\<close> rounds at most; the
  scratch buffers \<open>unass_idx\<close>, \<open>unass_cnt\<close>, \<open>unass_cnt_sum\<close>, \<open>cnt_tmp\<close> and
  \<open>max_idx\<close>, of which the description says nothing, are left as they are.
\<close>

definition emd_forward :: "(nat \<Rightarrow> nat \<Rightarrow> real) \<Rightarrow> emd_forward_fn" where
  "emd_forward reg xyz1 xyz2 bufs eps iters =
     (case shape xyz1 of
        [batchsize, n, d] \<Rightarrow>
          let fin = (\<lambda>b. final_dist n (point_of xyz1 b) (point_of xyz2 b)
                       (rounds (nat iters) reg eps n (point_of xyz1 b) (point_of xyz2 b)
                          (slice b bufs)))
          in bufs\<lparr>dist := scatter batchsize n (dist bufs) (\<lambda>b. dst (fin b)),
                  assignment := scatter batchsize n (assignment bufs) (\<lambda>b. asg (fin b)),
                  price := scatter batchsize n (price bufs) (\<lambda>b. prc (fin b)),
                  assignment_inv := scatter batchsize n (assignment_inv bufs) (\<lambda>b. inv (fin b)),
                  bid := scatter batchsize n (bid bufs) (\<lambda>b. bidt (fin b)),
                  bid_increments := scatter batchsize n (bid_increments bufs) (\<lambda>b. binc (fin b)),
                  max_increments := scatter batchsize n (max_increments bufs) (\<lambda>b. maxinc (fin b))\<rparr>
      | _ \<Rightarrow> bufs)"

text \<open>
  Modelled from the spec: \<^verbatim>\<open>emd.backward\<close>, the backward function of the compiled extension,
  which is not part of \<^verbatim>\<open>utils/loss.py\<close>. The assignment is a constant. For each matched pair
  \<open>(i, j = assignment[i])\<close> the gradient of A-point \<open>i\<close> is
  \<open>grad_dist[i] * 2 * (xyz1[i] - xyz2[j])\<close> in each of the three coordinates; the entries
  of an unmatched A-point are not written, so they keep the zero the wrapper put there.
\<close>

definition emd_backward :: emd_backward_fn where
  "emd_backward xyz1 xyz2 gradxyz1 graddist asgn =
     (case shape xyz1 of
        [batchsize, n, d] \<Rightarrow>
          gradxyz1\<lparr>elem := (\<lambda>ix. case ix of
              [b, i, k] \<Rightarrow>
                let j = elem asgn [b, i]
                in if b < batchsize \<and> i < n \<and> k < 3 \<and> 0 \<le> j \<and> j < int n
                   then elem graddist [b, i] * 2 * (elem xyz1 [b, i, k] - elem xyz2 [b, nat j, k])
                   else elem gradxyz1 ix
            | _ \<Rightarrow> elem gradxyz1 ix)\<rparr>
      | _ \<Rightarrow> gradxyz1)"

subsection \<open>The invariant of the auction\<close>

text \<open>
  Among the first \<open>n\<close> points of either set, \<open>asg\<close> and \<open>inv\<close> are partial maps into the
  indices below \<open>n\<close> that are inverse to each other where they are defined.
\<close>

definition matching :: "nat \<Rightarrow> auction \<Rightarrow> bool" where
  "matching n s =
     ((\<forall>i<n. asg s i = - 1 \<or>
         (0 \<le> asg s i \<and> asg s i < int n \<and> inv s (nat (asg s i)) = int i)) \<and>
      (\<forall>j<n. inv s j = - 1 \<or>
         (0 \<le> inv s j \<and> inv s j < int n \<and> asg s (nat (inv s j)) = int j)))"

section \<open>Properties of the wrapper\<close>

text \<open>
  With inputs that pass the four assertions, \<open>forward\<close> runs the extension once, on the
  converted inputs and on the buffers of \<open>alloc_buffers\<close>.
\<close>

lemma forward_valid:
  assumes "shape xyz1 = [b, n, d1]" "shape xyz2 = [b, n, d2]" "n mod 1024 = 0" "b \<le> 512"
  shows "forward K c xyz1 xyz2 eps iters =
           (let bufs' = K (to_float xyz1) (to_float xyz2) (alloc_buffers b n n) eps iters
            in (Inr \<lparr>out_dist = dist bufs', out_assignment = assignment bufs',
                     out_ctx = c\<lparr>saved_tensors :=
                        Some (to_float xyz1, to_float xyz2, assignment bufs')\<rparr>\<rparr>,
                alloc_order))"
  using assms by (simp add: forward_def Let_def)

lemma indices_one: "indices [n] = map (\<lambda>j. [j]) [0..<n]"
  by (induction n) simp_all

lemma sum_list_map_concat:
  fixes f :: "'a \<Rightarrow> real"
  shows "sum_list (map f (concat xss)) = sum_list (map (\<lambda>xs. sum_list (map f xs)) xss)"
  by (induction xss) simp_all

lemma sum_list_indices2:
  fixes f :: "nat list \<Rightarrow> real"
  shows "sum_list (map f (indices [b, n])) = (\<Sum>i<b. \<Sum>j<n. f [i, j])"
proof -
  have "indices [b, n] = concat (map (\<lambda>i. map (\<lambda>j. [i, j]) [0..<n]) [0..<b])"
    using indices_one [of n] by (simp add: comp_def)
  then have "sum_list (map f (indices [b, n])) =
        sum_list (map (\<lambda>i. sum_list (map (\<lambda>j. f [i, j]) [0..<n])) [0..<b])"
    by (simp add: sum_list_map_concat comp_def)
  also have "\<dots> = (\<Sum>i<b. \<Sum>j<n. f [i, j])"
    by (simp add: interv_sum_list_conv_sum_set_nat atLeast0LessThan)
  finally show ?thesis .
qed

lemma torch_mean_2d:
  assumes "shape t = [b, n]" "0 < b * n"
  shows "torch_mean t = Val ((\<Sum>i<b. \<Sum>j<n. elem t [i, j]) / real (b * n))"
  using assms by (simp add: torch_mean_def sum_list_indices2 del: indices.simps)

subsection \<open>Precondition failures\<close>

text \<open>
  Claim C4. When the two inputs are three-dimensional and a shape precondition fails (the
  point counts differ, the batch sizes differ, the point count is not a multiple of 1024,
  or the batch size is above 512), \<open>forward\<close> ends with an error, returns no result, and
  has allocated none of the work buffers: the list of allocations is empty. This holds
  for every extension, which is therefore never run.
\<close>

theorem forward_precondition_fails_before_alloc:
  assumes "shape xyz1 = [b1, n, d1]" and "shape xyz2 = [b2, m, d2]"
    and "n \<noteq> m \<or> b1 \<noteq> b2 \<or> n mod 1024 \<noteq> 0 \<or> 512 < b1"
  shows "forward emd_fwd c xyz1 xyz2 eps iters = (Inl AssertionError, [])"
  using assms by (auto simp add: forward_def)

theorem forward_precondition_fails_before_alloc_witness:
  "shape (torch_zeros [1, 1000, 3] None :: real tensor) = [1, 1000, 3] \<and>
   (1000::nat) mod 1024 \<noteq> 0 \<and>
   forward (\<lambda>x1 x2 bufs e k. bufs) new_ctx
     (torch_zeros [1, 1000, 3] None) (torch_zeros [1, 1000, 3] None) 0.005 50
   = (Inl AssertionError, [])"
  using forward_precondition_fails_before_alloc
    [of "torch_zeros [1, 1000, 3] None" 1 1000 3 "torch_zeros [1, 1000, 3] None" 1 1000 3]
  by (simp add: torch_zeros_def)

text \<open>
  Claim C5, as stated, asks for two distinguishable errors: \<open>InvalidShape\<close> for a wrong
  point count and \<open>BatchTooLarge\<close> for a batch above the maximum. The source checks every
  precondition with a bare \<^verbatim>\<open>assert\<close>, so a point count of 1000 and a batch of 513 fail
  with one and the same error.
\<close>

theorem forward_errors_same_counterexample:
  "fst (forward (\<lambda>x1 x2 bufs e k. bufs) new_ctx
          (torch_zeros [1, 1000, 3] None) (torch_zeros [1, 1000, 3] None) 0.005 50)
     = Inl AssertionError \<and>
   fst (forward (\<lambda>x1 x2 bufs e k. bufs) new_ctx
          (torch_zeros [513, 1024, 3] None) (torch_zeros [513, 1024, 3] None) 0.005 50)
     = Inl AssertionError"
  by (simp add: forward_def torch_zeros_def)

text \<open>
  Claim C5, amended. A call whose point counts differ or are not a multiple of 1024, and a
  call whose batch size is above 512, both fail with \<open>AssertionError\<close>: the two failure
  modes carry the same error and cannot be told apart by it.
\<close>

theorem forward_errors_all_assertion:
  assumes "shape xyz1 = [b1, n, d1]" and "shape xyz2 = [b2, m, d2]"
    and "n \<noteq> m \<or> n mod 1024 \<noteq> 0"
    and "shape pcd1 = [b1', n', d1']" and "shape pcd2 = [b2', m', d2']"
    and "512 < b1'"
  shows "fst (forward emd_fwd c xyz1 xyz2 eps iters) = Inl AssertionError \<and>
         fst (forward emd_fwd' c' pcd1 pcd2 eps' iters') = Inl AssertionError \<and>
         fst (forward emd_fwd c xyz1 xyz2 eps iters) =
         fst (forward emd_fwd' c' pcd1 pcd2 eps' iters')"
  using assms by (auto simp add: forward_def)

theorem forward_errors_all_assertion_witness:
  "(1000::nat) mod 1024 \<noteq> 0 \<and> (512::nat) < 513 \<and>
   fst (forward (\<lambda>x1 x2 bufs e k. bufs) new_ctx
          (torch_zeros [1, 1000, 3] None) (torch_zeros [1, 1000, 3] None) 0.005 50) =
   fst (forward (\<lambda>x1 x2 bufs e k. bufs) new_ctx
          (torch_zeros [513, 1024, 3] None) (torch_zeros [513, 1024, 3] None) 0.005 50)"
  using forward_errors_all_assertion
    [of "torch_zeros [1, 1000, 3] None" 1 1000 3 "torch_zeros [1, 1000, 3] None" 1 1000 3
        "torch_zeros [513, 1024, 3] None" 513 1024 3 "torch_zeros [513, 1024, 3] None" 513 1024 3]
  by (simp add: torch_zeros_def)

subsection \<open>The state of a call\<close>

text \<open>
  Claim C6. A call with valid inputs allocates every work buffer once, runs the extension
  on buffers that depend on the sizes of the inputs alone (\<open>alloc_buffers\<close>, with a price
  of zero everywhere), and changes nothing but the saved tensors of its context: whatever
  context it is given, a context left by an earlier call included, the distances and the
  assignment it returns are the same.
\<close>

theorem forward_state_fresh:
  fixes emd_fwd :: emd_forward_fn and eps :: real and iters :: int
  assumes "shape xyz1 = [b, n, d1]" and "shape xyz2 = [b, n, d2]"
    and "n mod 1024 = 0" and "b \<le> 512"
  defines "bufs' \<equiv> emd_fwd (to_float xyz1) (to_float xyz2) (alloc_buffers b n n) eps iters"
  shows "(\<forall>c. forward emd_fwd c xyz1 xyz2 eps iters =
            (Inr \<lparr>out_dist = dist bufs', out_assignment = assignment bufs',
                  out_ctx = c\<lparr>saved_tensors :=
                    Some (to_float xyz1, to_float xyz2, assignment bufs')\<rparr>\<rparr>,
             [Dist, Assignment, Assignment_inv, Price, Bid, Bid_increments, Max_increments,
              Unass_idx, Max_idx, Unass_cnt, Unass_cnt_sum, Cnt_tmp])) \<and>
         (\<forall>ix. elem (price (alloc_buffers b n n)) ix = 0)"
  using assms by (simp add: forward_valid Let_def alloc_order_def alloc_buffers_def torch_zeros_def)

theorem forward_state_fresh_witness:
  "(1024::nat) mod 1024 = 0 \<and> (1::nat) \<le> 512 \<and>
   snd (forward (\<lambda>x1 x2 bufs e k. bufs\<lparr>dist := price bufs\<rparr>)
          \<lparr>saved_tensors = Some (torch_zeros [2, 2048, 3] None, torch_zeros [2, 2048, 3] None,
                                 torch_zeros [2, 2048] (Some Int32))\<rparr>
          (torch_zeros [1, 1024, 3] None) (torch_zeros [1, 1024, 3] None) 0.005 50)
     = [Dist, Assignment, Assignment_inv, Price, Bid, Bid_increments, Max_increments,
        Unass_idx, Max_idx, Unass_cnt, Unass_cnt_sum, Cnt_tmp] \<and>
   elem (price (alloc_buffers 1 1024 1024)) [0, 7] = 0"
  using forward_state_fresh
    [of "torch_zeros [1, 1024, 3] None" 1 1024 3 "torch_zeros [1, 1024, 3] None" 3
        "\<lambda>x1 x2 bufs e k. bufs\<lparr>dist := price bufs\<rparr>" "0.005" 50]
  by (simp add: torch_zeros_def)

text \<open>
  Claim C7. With valid inputs the extension, which runs the auction rounds, is started on
  buffers of shape \<open>(batch, N)\<close> in which every entry of \<open>assignment\<close> and of
  \<open>assignment_inv\<close> is \<open>-1\<close> and every entry of \<open>price\<close> is \<open>0\<close>.
\<close>

theorem forward_initial_state:
  fixes emd_fwd :: emd_forward_fn and eps :: real and iters :: int
  assumes "shape xyz1 = [b, n, d1]" and "shape xyz2 = [b, n, d2]"
    and "n mod 1024 = 0" and "b \<le> 512"
  defines "bufs \<equiv> alloc_buffers b n n"
  shows "out_assignment (projr (fst (forward emd_fwd c xyz1 xyz2 eps iters))) =
           assignment (emd_fwd (to_float xyz1) (to_float xyz2) bufs eps iters) \<and>
         out_dist (projr (fst (forward emd_fwd c xyz1 xyz2 eps iters))) =
           dist (emd_fwd (to_float xyz1) (to_float xyz2) bufs eps iters) \<and>
         shape (assignment bufs) = [b, n] \<and> (\<forall>ix. elem (assignment bufs) ix = - 1) \<and>
         shape (assignment_inv bufs) = [b, n] \<and> (\<forall>ix. elem (assignment_inv bufs) ix = - 1) \<and>
         shape (price bufs) = [b, n] \<and> (\<forall>ix. elem (price bufs) ix = 0)"
  using assms
  by (simp add: forward_valid Let_def alloc_buffers_def torch_zeros_def sub_scalar_def)

theorem forward_initial_state_witness:
  "(1024::nat) mod 1024 = 0 \<and> (1::nat) \<le> 512 \<and>
   elem (out_assignment (projr (fst (forward (\<lambda>x1 x2 bufs e k. bufs) new_ctx
          (torch_zeros [1, 1024, 3] None) (torch_zeros [1, 1024, 3] None) 0.005 50)))) [0, 5]
     = - 1"
  using forward_initial_state
    [of "torch_zeros [1, 1024, 3] None" 1 1024 3 "torch_zeros [1, 1024, 3] None" 3
        "\<lambda>x1 x2 bufs e k. bufs" new_ctx "0.005" 50]
  by (simp add: torch_zeros_def)

text \<open>
  Claim C9. Whatever the dtype of the inputs, a call with valid inputs converts both point
  sets to single precision and creates \<open>dist\<close>, \<open>price\<close>, \<open>bid_increments\<close> and
  \<open>max_increments\<close> in single precision as well, and these are the tensors the extension
  works on.
\<close>

theorem forward_single_precision:
  fixes emd_fwd :: emd_forward_fn and eps :: real and iters :: int
  assumes "shape xyz1 = [b, n, d1]" and "shape xyz2 = [b, n, d2]"
    and "n mod 1024 = 0" and "b \<le> 512"
  defines "bufs \<equiv> alloc_buffers b n n"
  shows "out_dist (projr (fst (forward emd_fwd c xyz1 xyz2 eps iters))) =
           dist (emd_fwd (to_float xyz1) (to_float xyz2) bufs eps iters) \<and>
         dtype (to_float xyz1) = Float32 \<and> dtype (to_float xyz2) = Float32 \<and>
         dtype (dist bufs) = Float32 \<and> dtype (price bufs) = Float32 \<and>
         dtype (bid_increments bufs) = Float32 \<and> dtype (max_increments bufs) = Float32"
  using assms
  by (simp add: forward_valid Let_def alloc_buffers_def torch_zeros_def to_float_def
      default_dtype_def)

theorem forward_single_precision_witness:
  "(1024::nat) mod 1024 = 0 \<and> (1::nat) \<le> 512 \<and>
   dtype (out_dist (projr (fst (forward (\<lambda>x1 x2 bufs e k. bufs) new_ctx
          (torch_zeros [1, 1024, 3] (Some Float64)) (torch_zeros [1, 1024, 3] (Some Float64))
          0.005 50)))) = Float32 \<and>
   dtype (to_float (torch_zeros [1, 1024, 3] (Some Float64))) = Float32"
  using forward_single_precision
    [of "torch_zeros [1, 1024, 3] (Some Float64)" 1 1024 3
        "torch_zeros [1, 1024, 3] (Some Float64)" 3 "\<lambda>x1 x2 bufs e k. bufs" new_ctx "0.005" 50]
  by (simp add: torch_zeros_def)

subsection \<open>The module and the loss\<close>

text \<open>
  Claim C8. When the caller omits \<open>eps\<close> and \<open>iters\<close> the module calls the autograd
  function with \<open>0.005\<close> and \<open>50\<close>; a value the caller gives replaces the default. With
  valid inputs the two values reach the extension as they are.
\<close>

theorem emdModule_forward_defaults:
  fixes emd_fwd :: emd_forward_fn
  shows "emdModule_forward emd_fwd input1 input2 None None =
           forward emd_fwd new_ctx input1 input2 0.005 50 \<and>
         emdModule_forward emd_fwd input1 input2 (Some e) None =
           forward emd_fwd new_ctx input1 input2 e 50 \<and>
         emdModule_forward emd_fwd input1 input2 None (Some k) =
           forward emd_fwd new_ctx input1 input2 0.005 k \<and>
         emdModule_forward emd_fwd input1 input2 (Some e) (Some k) =
           forward emd_fwd new_ctx input1 input2 e k \<and>
         (shape input1 = [b, n, d1] \<and> shape input2 = [b, n, d2] \<and> n mod 1024 = 0 \<and> b \<le> 512 \<longrightarrow>
            out_dist (projr (fst (forward emd_fwd new_ctx input1 input2 e k))) =
              dist (emd_fwd (to_float input1) (to_float input2) (alloc_buffers b n n) e k) \<and>
            out_assignment (projr (fst (forward emd_fwd new_ctx input1 input2 e k))) =
              assignment (emd_fwd (to_float input1) (to_float input2) (alloc_buffers b n n) e k))"
  by (simp add: emdModule_forward_def forward_valid Let_def)

theorem emdModule_forward_defaults_witness:
  "elem (out_dist (projr (fst (emdModule_forward
       (\<lambda>x1 x2 bufs e k. bufs\<lparr>dist := (dist bufs)\<lparr>elem := (\<lambda>ix. e + real_of_int k)\<rparr>\<rparr>)
       (torch_zeros [1, 1024, 3] None) (torch_zeros [1, 1024, 3] None) None None)))) [0, 0]
   = 0.005 + 50"
  using emdModule_forward_defaults
    [where emd_fwd = "\<lambda>x1 x2 bufs e k. bufs\<lparr>dist := (dist bufs)\<lparr>elem := (\<lambda>ix. e + real_of_int k)\<rparr>\<rparr>"
       and ?input1.0 = "torch_zeros [1, 1024, 3] None" and ?input2.0 = "torch_zeros [1, 1024, 3] None"
       and e = "0.005" and k = 50 and b = 1 and n = 1024 and ?d1.0 = 3 and ?d2.0 = 3]
  by (simp add: torch_zeros_def)

text \<open>
  Claim C10. For valid inputs of equal shape \<open>emd_loss\<close> is the mean of the \<open>dist\<close> tensor
  of one run of the extension with \<open>eps = 0.005\<close> and \<open>iters = 50\<close>: when that tensor has
  the shape \<open>(batch, N)\<close> of the buffer it was written into and is not empty, the sum of all
  its entries divided by \<open>batch * N\<close>. The assignment plays no part: two extensions that
  write the same distances give the same loss.
\<close>

theorem emd_loss_mean:
  fixes emd_fwd emd_fwd' :: emd_forward_fn
  assumes "shape output = [b, n, d1]" and "shape gt = [b, n, d2]"
    and "n mod 1024 = 0" and "b \<le> 512"
  defines "run \<equiv> (\<lambda>f :: emd_forward_fn.
             f (to_float output) (to_float gt) (alloc_buffers b n n) 0.005 50)"
  shows "emd_loss emd_fwd output gt = Inr (torch_mean (dist (run emd_fwd))) \<and>
         (shape (dist (run emd_fwd)) = [b, n] \<and> 0 < b * n \<longrightarrow>
            emd_loss emd_fwd output gt =
              Inr (Val ((\<Sum>i<b. \<Sum>j<n. elem (dist (run emd_fwd)) [i, j]) / real (b * n)))) \<and>
         (dist (run emd_fwd') = dist (run emd_fwd) \<longrightarrow>
            emd_loss emd_fwd' output gt = emd_loss emd_fwd output gt)"
proof -
  have loss: "emd_loss f output gt = Inr (torch_mean (dist (run f)))" for f
    using assms(1-4) by (simp add: emd_loss_def emdModule_forward_def forward_valid Let_def run_def)
  show ?thesis
    using torch_mean_2d [of "dist (run emd_fwd)" b n] by (auto simp add: loss)
qed

theorem emd_loss_mean_witness:
  "(1024::nat) mod 1024 = 0 \<and> (1::nat) \<le> 512 \<and>
   emd_loss (\<lambda>x1 x2 bufs e k. bufs\<lparr>dist := (dist bufs)\<lparr>elem := (\<lambda>ix. 2)\<rparr>\<rparr>)
     (torch_zeros [1, 1024, 3] None) (torch_zeros [1, 1024, 3] None) = Inr (Val 2)"
  using emd_loss_mean
    [of "torch_zeros [1, 1024, 3] None" 1 1024 3 "torch_zeros [1, 1024, 3] None" 3
        "\<lambda>x1 x2 bufs e k. bufs\<lparr>dist := (dist bufs)\<lparr>elem := (\<lambda>ix. 2)\<rparr>\<rparr>"
        "\<lambda>x1 x2 bufs e k. bufs\<lparr>dist := (dist bufs)\<lparr>elem := (\<lambda>ix. 2)\<rparr>\<rparr>"]
  by (auto simp add: torch_zeros_def alloc_buffers_def)

section \<open>Properties of the backward call\<close>

text \<open>
  Claim C2. After a forward call on point sets of shape \<open>(batch, N, 3)\<close>, the backward call
  with the backward function of the extension returns, for every A-point \<open>i\<close> whose saved
  assignment \<open>j\<close> is an index of B, the gradient
  \<open>grad_dist[i] * 2 * (xyz1[i] - xyz2[j])\<close> in each coordinate, and zero for every
  A-point whose saved assignment is \<open>-1\<close>. Only the saved assignment is used: the incoming
  gradient of the assignment output has no influence on the result, and the gradients
  returned for \<open>eps\<close> and \<open>iters\<close> are \<open>None\<close>.
\<close>

theorem backward_grad_xyz1:
  fixes emd_fwd :: emd_forward_fn
  assumes "shape xyz1 = [batchsize, n, 3]"
    and "fst (forward emd_fwd c xyz1 xyz2 eps iters) = Inr r"
    and "b < batchsize" and "i < n" and "k < 3"
  defines "j \<equiv> elem (out_assignment r) [b, i]"
  shows "\<exists>gradxyz1 gradxyz2.
           backward emd_backward (out_ctx r) graddist gradidx =
             Inr (gradxyz1, gradxyz2, None, None) \<and>
           backward emd_backward (out_ctx r) graddist gradidx' =
             Inr (gradxyz1, gradxyz2, None, None) \<and>
           (0 \<le> j \<and> j < int n \<longrightarrow>
              elem gradxyz1 [b, i, k] =
                elem graddist [b, i] * 2 * (elem xyz1 [b, i, k] - elem xyz2 [b, nat j, k])) \<and>
           (j = - 1 \<longrightarrow> elem gradxyz1 [b, i, k] = 0)"
  using assms
  by (auto simp add: forward_def backward_def emd_backward_def torch_zeros_def to_float_def
      Let_def split: list.splits if_splits)

theorem backward_grad_xyz1_witness:
  "(0::nat) < 1 \<and> (5::nat) < 1024 \<and>
   elem (fst (projr (backward emd_backward
     (out_ctx (projr (fst (forward
        (\<lambda>x1 x2 bufs e k. bufs\<lparr>assignment := (assignment bufs)\<lparr>elem := (\<lambda>ix. int (ix ! 1))\<rparr>\<rparr>)
        new_ctx \<lparr>dtype = Float32, shape = [1, 1024, 3], elem = (\<lambda>ix. 1)\<rparr>
        (torch_zeros [1, 1024, 3] None) 0.005 50))))
     \<lparr>dtype = Float32, shape = [1, 1024], elem = (\<lambda>ix. 1)\<rparr> ()))) [0, 5, 0] = 2"
  using backward_grad_xyz1
    [where emd_fwd = "\<lambda>x1 x2 bufs e k. bufs\<lparr>assignment := (assignment bufs)\<lparr>elem := (\<lambda>ix. int (ix ! 1))\<rparr>\<rparr>"
       and ?xyz1.0 = "\<lparr>dtype = Float32, shape = [1, 1024, 3], elem = (\<lambda>ix. 1)\<rparr>"
       and ?xyz2.0 = "torch_zeros [1, 1024, 3] None"
       and batchsize = 1 and n = 1024 and c = new_ctx and eps = "0.005" and iters = 50
       and b = 0 and i = 5 and k = 0
       and graddist = "\<lparr>dtype = Float32, shape = [1, 1024], elem = (\<lambda>ix. 1)\<rparr>"
       and gradidx = "()" and gradidx' = "()"
       and r = "projr (fst (forward
        (\<lambda>x1 x2 bufs e k. bufs\<lparr>assignment := (assignment bufs)\<lparr>elem := (\<lambda>ix. int (ix ! 1))\<rparr>\<rparr>)
        new_ctx \<lparr>dtype = Float32, shape = [1, 1024, 3], elem = (\<lambda>ix. 1)\<rparr>
        (torch_zeros [1, 1024, 3] None) 0.005 50))"]
  by (auto simp add: forward_def torch_zeros_def Let_def)

text \<open>
  Claim C3, as stated, asks that \<open>grad_xyz2\<close> carries \<open>-grad_dist[i] * 2 * (xyz1[i] - xyz2[j])\<close>
  at each matched B-point \<open>j\<close>. With every point of the first set at \<open>(1, 1, 1)\<close>, every
  point of the second set at the origin, A-point \<open>0\<close> matched to B-point \<open>0\<close> and an
  incoming gradient of one, that value is \<open>-2\<close> in coordinate \<open>0\<close> of B-point \<open>0\<close>; the
  call returns \<open>0\<close> there, while the gradient of the first set is \<open>2\<close>.
\<close>

theorem backward_grad_xyz2_counterexample:
  "elem (fst (snd (projr (backward emd_backward
       \<lparr>saved_tensors = Some (\<lparr>dtype = Float32, shape = [1, 1024, 3], elem = (\<lambda>ix. 1)\<rparr>,
                              torch_zeros [1, 1024, 3] None,
                              torch_zeros [1, 1024] (Some Int32))\<rparr>
       \<lparr>dtype = Float32, shape = [1, 1024], elem = (\<lambda>ix. 1)\<rparr> ())))) [0, 0, 0] = 0 \<and>
   elem (torch_zeros [1, 1024] (Some Int32) :: int tensor) [0, 0] = 0 \<and>
   - (1::real) * 2 * (1 - 0) = - 2 \<and>
   elem (fst (projr (backward emd_backward
       \<lparr>saved_tensors = Some (\<lparr>dtype = Float32, shape = [1, 1024, 3], elem = (\<lambda>ix. 1)\<rparr>,
                              torch_zeros [1, 1024, 3] None,
                              torch_zeros [1, 1024] (Some Int32))\<rparr>
       \<lparr>dtype = Float32, shape = [1, 1024], elem = (\<lambda>ix. 1)\<rparr> ()))) [0, 0, 0] = 2"
  by (simp add: backward_def emd_backward_def torch_zeros_def Let_def)

text \<open>
  Claim C3, amended. The wrapper creates \<open>gradxyz2\<close> as zeros of the shape of \<open>xyz2\<close> and
  never hands it to the extension: whatever the extension does, and whatever the saved
  assignment and the incoming gradient are, the returned gradient of the second point set
  is zero everywhere.
\<close>

theorem backward_grad_xyz2_zero:
  fixes emd_bwd :: emd_backward_fn
  assumes "saved_tensors c = Some (xyz1, xyz2, asgn)"
  shows "\<exists>gradxyz1 gradxyz2.
           backward emd_bwd c graddist gradidx = Inr (gradxyz1, gradxyz2, None, None) \<and>
           shape gradxyz2 = shape xyz2 \<and> (\<forall>ix. elem gradxyz2 ix = 0)"
  using assms by (simp add: backward_def torch_zeros_def)

theorem backward_grad_xyz2_zero_witness:
  "\<exists>gradxyz1 gradxyz2.
     backward emd_backward
       \<lparr>saved_tensors = Some (\<lparr>dtype = Float32, shape = [1, 1024, 3], elem = (\<lambda>ix. 1)\<rparr>,
                              torch_zeros [1, 1024, 3] None,
                              torch_zeros [1, 1024] (Some Int32))\<rparr>
       \<lparr>dtype = Float32, shape = [1, 1024], elem = (\<lambda>ix. 1)\<rparr> ()
       = Inr (gradxyz1, gradxyz2, None, None) \<and>
     shape gradxyz2 = [1, 1024, 3] \<and> elem gradxyz2 [0, 0, 0] = 0"
  using backward_grad_xyz2_zero
    [of "\<lparr>saved_tensors = Some (\<lparr>dtype = Float32, shape = [1, 1024, 3], elem = (\<lambda>ix. 1)\<rparr>,
                              torch_zeros [1, 1024, 3] None,
                              torch_zeros [1, 1024] (Some Int32))\<rparr>"
        "\<lparr>dtype = Float32, shape = [1, 1024, 3], elem = (\<lambda>ix. 1)\<rparr>"
        "torch_zeros [1, 1024, 3] None" "torch_zeros [1, 1024] (Some Int32)"
        emd_backward "\<lparr>dtype = Float32, shape = [1, 1024], elem = (\<lambda>ix. 1)\<rparr>" "()"]
  by (auto simp add: torch_zeros_def)

section \<open>Properties of the auction\<close>

text \<open>
  Two runs of the round loop on two points per set. In the first every A-point has a
  nearest B-point of its own and one round matches both. In the second both A-points bid
  for the same B-point; with a single round the lower index wins and the other A-point
  stays unmatched, with the entry \<open>-1\<close>.
\<close>

lemma auction_example_matched:
  "map (asg (rounds 50 (\<lambda>i j. 0) 0.005 2
         (\<lambda>i. if i = 0 then (0, 0, 0) else (1, 0, 0))
         (\<lambda>j. if j = 0 then (1, 0, 0) else (0, 0, 0))
         \<lparr>asg = (\<lambda>i. - 1), inv = (\<lambda>j. - 1), prc = (\<lambda>j. 0), bidt = (\<lambda>i. 0),
          binc = (\<lambda>i. 0), maxinc = (\<lambda>j. 0), dst = (\<lambda>i. 0)\<rparr>)) [0, 1] = [1, 0]"
  by (simp add: eval_nat_numeral auction_round_def unassigned_def place_bid_def adjusted_def
      sqdist_def award_def Let_def upt_rec)

lemma auction_example_unmatched:
  "map (asg (rounds 1 (\<lambda>i j. 0) 0.005 2
         (\<lambda>i. (0, 0, 0))
         (\<lambda>j. if j = 0 then (0, 0, 0) else (1, 0, 0))
         \<lparr>asg = (\<lambda>i. - 1), inv = (\<lambda>j. - 1), prc = (\<lambda>j. 0), bidt = (\<lambda>i. 0),
          binc = (\<lambda>i. 0), maxinc = (\<lambda>j. 0), dst = (\<lambda>i. 0)\<rparr>)) [0, 1] = [0, - 1]"
  by (simp add: auction_round_def unassigned_def place_bid_def adjusted_def
      sqdist_def award_def Let_def upt_rec)

subsection \<open>The rounds keep the assignment a partial matching\<close>

text \<open>
  Assigning a free A-point \<open>w\<close> to a B-point \<open>j\<close>, after releasing the occupant of \<open>j\<close>,
  keeps \<open>asg\<close> and \<open>inv\<close> inverse to each other. The winner of a B-point is one of its
  bidders; a bidder was unassigned when the round began and no earlier step of the round
  has assigned it, because it bids for one B-point only.
\<close>

lemma arg_max_on_mem: "arg_max_on f w ks \<in> set (w # ks)"
  by (induction ks arbitrary: w) auto

lemma award_bidt: "bidt (award unass s j) = bidt s"
  by (simp add: award_def Let_def split: list.splits)

lemma award_winner:
  assumes "filter (\<lambda>i. bidt s i = int j) unass = w0 # ws"
  shows "arg_max_on (binc s) w0 ws \<in> set unass \<and> bidt s (arg_max_on (binc s) w0 ws) = int j"
proof -
  have "arg_max_on (binc s) w0 ws \<in> set (filter (\<lambda>i. bidt s i = int j) unass)"
    using arg_max_on_mem [of "binc s" w0 ws] assms by simp
  then show ?thesis by simp
qed

lemma matchingD1:
  "matching n s \<Longrightarrow> i < n \<Longrightarrow> asg s i \<noteq> - 1 \<Longrightarrow>
     0 \<le> asg s i \<and> asg s i < int n \<and> inv s (nat (asg s i)) = int i"
  by (auto simp add: matching_def)

lemma matchingD2:
  "matching n s \<Longrightarrow> j < n \<Longrightarrow> inv s j \<noteq> - 1 \<Longrightarrow>
     0 \<le> inv s j \<and> inv s j < int n \<and> asg s (nat (inv s j)) = int j"
  by (auto simp add: matching_def)

lemma assign_matching:
  assumes m: "matching n s" and j: "j < n" and w: "w < n" and free: "asg s w = - 1"
  defines "a' \<equiv> (if inv s j \<noteq> - 1 then (asg s)(nat (inv s j) := - 1) else asg s)(w := int j)"
  shows "matching n (s\<lparr>maxinc := mi, prc := pr, asg := a', inv := (inv s)(j := int w)\<rparr>)"
proof -
  have aw: "a' w = int j" by (simp add: a'_def)
  have other: "a' i = - 1 \<or> a' i = asg s i" if "i \<noteq> w" for i
    using that by (simp add: a'_def)
  have keep: "a' i = asg s i \<and> asg s i \<noteq> int j" if "i < n" "i \<noteq> w" "a' i \<noteq> - 1" for i
  proof -
    from other that have e: "a' i = asg s i" by blast
    have "asg s i \<noteq> int j"
    proof
      assume c: "asg s i = int j"
      with that e have "asg s i \<noteq> - 1" by simp
      from matchingD1 [OF m that(1) this] c have "inv s j = int i" by simp
      then have "a' i = - 1" using that(2) by (simp add: a'_def)
      with that(3) show False by simp
    qed
    with e show ?thesis by simp
  qed
  have p1: "a' i = - 1 \<or> (0 \<le> a' i \<and> a' i < int n \<and> ((inv s)(j := int w)) (nat (a' i)) = int i)"
    if "i < n" for i
  proof (cases "i = w")
    case True
    then show ?thesis using aw j by simp
  next
    case False
    show ?thesis
    proof (cases "a' i = - 1")
      case True
      then show ?thesis by simp
    next
      case ne: False
      from keep [OF that False ne] have e: "a' i = asg s i" and d: "asg s i \<noteq> int j" by simp_all
      from ne e have "asg s i \<noteq> - 1" by simp
      from matchingD1 [OF m that this]
      have r: "0 \<le> asg s i" "asg s i < int n" "inv s (nat (asg s i)) = int i" by simp_all
      from r(1) d have "nat (asg s i) \<noteq> j" by auto
      with r e show ?thesis by simp
    qed
  qed
  have p2: "((inv s)(j := int w)) j' = - 1 \<or>
            (0 \<le> ((inv s)(j := int w)) j' \<and> ((inv s)(j := int w)) j' < int n \<and>
             a' (nat (((inv s)(j := int w)) j')) = int j')"
    if "j' < n" for j'
  proof (cases "j' = j")
    case True
    then show ?thesis using aw w by simp
  next
    case False
    show ?thesis
    proof (cases "inv s j' = - 1")
      case True
      then show ?thesis using False by simp
    next
      case ne: False
      from matchingD2 [OF m that ne]
      have r: "0 \<le> inv s j'" "inv s j' < int n" "asg s (nat (inv s j')) = int j'" by simp_all
      have qw: "nat (inv s j') \<noteq> w" using r(3) free by auto
      have qp: "nat (inv s j') \<noteq> nat (inv s j)" if "inv s j \<noteq> - 1"
      proof
        assume c: "nat (inv s j') = nat (inv s j)"
        from matchingD2 [OF m j that] have "asg s (nat (inv s j)) = int j" by simp
        with c r(3) False show False by simp
      qed
      have "a' (nat (inv s j')) = asg s (nat (inv s j'))"
        using qw qp by (simp add: a'_def)
      with r False show ?thesis by simp
    qed
  qed
  show ?thesis
    unfolding matching_def using p1 p2 by simp
qed

lemma award_matching:
  assumes m: "matching n s" and j: "j < n" and un: "\<forall>i\<in>set unass. i < n"
    and pending: "\<forall>i\<in>set unass. bidt s i = int j \<longrightarrow> asg s i = - 1"
  shows "matching n (award unass s j)"
proof (cases "filter (\<lambda>i. bidt s i = int j) unass")
  case Nil
  then show ?thesis using m by (simp add: award_def)
next
  case (Cons w0 ws)
  define w where "w = arg_max_on (binc s) w0 ws"
  from award_winner [OF Cons] have win: "w \<in> set unass" "bidt s w = int j"
    by (simp_all add: w_def)
  with un pending have "w < n" "asg s w = - 1" by auto
  from assign_matching [OF m j this]
  show ?thesis using Cons by (simp add: award_def Let_def w_def)
qed

lemma award_keeps_unassigned:
  assumes "bidt s i \<noteq> int j" and "asg s i = - 1"
  shows "asg (award unass s j) i = - 1"
proof (cases "filter (\<lambda>i. bidt s i = int j) unass")
  case Nil
  then show ?thesis using assms by (simp add: award_def)
next
  case (Cons w0 ws)
  from award_winner [OF Cons] assms(1) have "arg_max_on (binc s) w0 ws \<noteq> i" by auto
  then show ?thesis using Cons assms(2) by (simp add: award_def Let_def)
qed

lemma fold_award_bidt: "bidt (fold (\<lambda>j t. award unass t j) js s) = bidt s"
  by (induction js arbitrary: s) (simp_all add: award_bidt)

lemma fold_award_matching:
  assumes "distinct js" and "\<forall>j\<in>set js. j < n" and "matching n s"
    and "\<forall>i\<in>set unass. i < n"
    and "\<forall>i\<in>set unass. bidt s i \<in> int ` set js \<longrightarrow> asg s i = - 1"
  shows "matching n (fold (\<lambda>j t. award unass t j) js s)"
  using assms
proof (induction js arbitrary: s)
  case Nil
  then show ?case by simp
next
  case (Cons j js)
  have m': "matching n (award unass s j)"
    using Cons.prems by (intro award_matching) auto
  have pend': "\<forall>i\<in>set unass. bidt (award unass s j) i \<in> int ` set js \<longrightarrow>
                 asg (award unass s j) i = - 1"
  proof (intro ballI impI)
    fix i assume i: "i \<in> set unass" and b: "bidt (award unass s j) i \<in> int ` set js"
    from b have b': "bidt s i \<in> int ` set js" by (simp add: award_bidt)
    with Cons.prems(1) have "bidt s i \<noteq> int j" by auto
    moreover from b' i Cons.prems(5) have "asg s i = - 1" by auto
    ultimately show "asg (award unass s j) i = - 1" by (rule award_keeps_unassigned)
  qed
  from Cons.IH [OF _ _ m' Cons.prems(4) pend'] Cons.prems(1,2)
  show ?case by simp
qed

lemma fold_place_bid_asg:
  "asg (fold (place_bid reg eps n p q) bs s) = asg s \<and>
   inv (fold (place_bid reg eps n p q) bs s) = inv s"
  by (induction bs arbitrary: s) (simp_all add: place_bid_def Let_def)

lemma matching_cong: "asg t = asg s \<Longrightarrow> inv t = inv s \<Longrightarrow> matching n t = matching n s"
  by (simp add: matching_def)

lemma auction_round_matching:
  assumes "matching n s"
  shows "matching n (auction_round reg eps n p q s)"
proof -
  define unass where "unass = unassigned n s"
  define s1 where "s1 = fold (place_bid reg eps n p q) unass s"
  have a1: "asg s1 = asg s" and i1: "inv s1 = inv s"
    using fold_place_bid_asg [of reg eps n p q unass s] by (simp_all add: s1_def)
  have m1: "matching n s1" using assms matching_cong [OF a1 i1] by simp
  have un: "\<forall>i\<in>set unass. i < n" by (simp add: unass_def unassigned_def)
  have free: "\<forall>i\<in>set unass. bidt s1 i \<in> int ` set [0..<n] \<longrightarrow> asg s1 i = - 1"
    by (simp add: unass_def unassigned_def a1)
  have "matching n (fold (\<lambda>j t. award unass t j) [0..<n] s1)"
    by (rule fold_award_matching [OF _ _ m1 un free]) simp_all
  then show ?thesis by (simp add: auction_round_def Let_def unass_def s1_def)
qed

lemma rounds_matching:
  "matching n s \<Longrightarrow> matching n (rounds k reg eps n p q s)"
  by (induction k arbitrary: s) (simp_all add: auction_round_matching)

lemma final_dist_matching: "matching n (final_dist n p q s) = matching n s"
  by (simp add: final_dist_def matching_def)

lemma slice_alloc_matching: "matching n (slice b (alloc_buffers batchsize n m))"
  by (simp add: matching_def slice_def alloc_buffers_def sub_scalar_def torch_zeros_def)

lemma matching_range:
  "matching n s \<Longrightarrow> i < n \<Longrightarrow> asg s i = - 1 \<or> (0 \<le> asg s i \<and> asg s i < int n)"
  by (auto simp add: matching_def)

lemma matching_inj:
  assumes "matching n s" and "i < n" and "i' < n" and "asg s i \<noteq> - 1" and "asg s i = asg s i'"
  shows "i = i'"
proof -
  from matchingD1 [OF assms(1,2,4)] have "inv s (nat (asg s i)) = int i" by simp
  moreover from assms(4,5) have "asg s i' \<noteq> - 1" by simp
  from matchingD1 [OF assms(1,3) this] assms(5) have "inv s (nat (asg s i)) = int i'" by simp
  ultimately show ?thesis by simp
qed

lemma emd_forward_assignment:
  assumes "shape xyz1 = [batchsize, n, d]" and "b < batchsize" and "i < n"
  shows "elem (assignment (emd_forward reg xyz1 xyz2 bufs eps iters)) [b, i] =
           asg (final_dist n (point_of xyz1 b) (point_of xyz2 b)
                 (rounds (nat iters) reg eps n (point_of xyz1 b) (point_of xyz2 b)
                    (slice b bufs))) i"
  using assms by (simp add: emd_forward_def scatter_def Let_def)

text \<open>
  Claim C1. For point sets of shape \<open>(batch, N, 3)\<close> with equal batch and \<open>N\<close>, \<open>N\<close> a
  multiple of 1024 and a batch of at most 512, the forward call with the forward function
  of the extension returns a result, and in the assignment it returns every entry is
  \<open>-1\<close> or an index in \<open>[0, N)\<close>, and within a batch element no two A-points are given the
  same B-point.
\<close>

theorem forward_assignment_in_range_injective:
  fixes reg :: "nat \<Rightarrow> nat \<Rightarrow> real" and eps :: real and iters :: int and c :: ctx
  assumes "shape xyz1 = [batchsize, n, 3]" and "shape xyz2 = [batchsize, n, 3]"
    and "n mod 1024 = 0" and "batchsize \<le> 512"
  defines "a \<equiv> elem (out_assignment (projr (fst
                  (forward (emd_forward reg) c xyz1 xyz2 eps iters))))"
  shows "(\<exists>r. forward (emd_forward reg) c xyz1 xyz2 eps iters = (Inr r, alloc_order)) \<and>
         (\<forall>b<batchsize. \<forall>i<n.
            (a [b, i] = - 1 \<or> (0 \<le> a [b, i] \<and> a [b, i] < int n)) \<and>
            (\<forall>i'<n. a [b, i] \<noteq> - 1 \<and> a [b, i] = a [b, i'] \<longrightarrow> i = i'))"
proof -
  define fin where "fin = (\<lambda>b. final_dist n (point_of (to_float xyz1) b) (point_of (to_float xyz2) b)
      (rounds (nat iters) reg eps n (point_of (to_float xyz1) b) (point_of (to_float xyz2) b)
         (slice b (alloc_buffers batchsize n n))))"
  have sh: "shape (to_float xyz1) = [batchsize, n, 3]"
    using assms(1) by (simp add: to_float_def)
  have m: "matching n (fin b)" for b
    unfolding fin_def final_dist_matching by (intro rounds_matching slice_alloc_matching)
  have a: "a [b, i] = asg (fin b) i" if "b < batchsize" "i < n" for b i
    using emd_forward_assignment [OF sh that] assms(1-4)
    by (simp add: a_def forward_valid Let_def fin_def)
  have r: "\<exists>r. forward (emd_forward reg) c xyz1 xyz2 eps iters = (Inr r, alloc_order)"
    using assms(1-4) by (simp add: forward_valid Let_def)
  have q: "(a [b, i] = - 1 \<or> (0 \<le> a [b, i] \<and> a [b, i] < int n)) \<and>
           (\<forall>i'<n. a [b, i] \<noteq> - 1 \<and> a [b, i] = a [b, i'] \<longrightarrow> i = i')"
    if "b < batchsize" "i < n" for b i
  proof (intro conjI allI impI)
    show "a [b, i] = - 1 \<or> (0 \<le> a [b, i] \<and> a [b, i] < int n)"
      using matching_range [OF m that(2), of b] a [OF that] by simp
  next
    fix i' assume "i' < n" and e: "a [b, i] \<noteq> - 1 \<and> a [b, i] = a [b, i']"
    with a [OF that] a [OF that(1) \<open>i' < n\<close>]
    have "asg (fin b) i \<noteq> - 1" "asg (fin b) i = asg (fin b) i'" by simp_all
    from matching_inj [OF m that(2) \<open>i' < n\<close> this] show "i = i'" .
  qed
  from r q show ?thesis by blast
qed

theorem forward_assignment_in_range_injective_witness:
  "(1024::nat) mod 1024 = 0 \<and> (1::nat) \<le> 512 \<and>
   (elem (out_assignment (projr (fst (forward (emd_forward (\<lambda>i j. 0)) new_ctx
        (torch_zeros [1, 1024, 3] None) (torch_zeros [1, 1024, 3] None) 0.005 50)))) [0, 0] = - 1 \<or>
    (0 \<le> elem (out_assignment (projr (fst (forward (emd_forward (\<lambda>i j. 0)) new_ctx
        (torch_zeros [1, 1024, 3] None) (torch_zeros [1, 1024, 3] None) 0.005 50)))) [0, 0] \<and>
     elem (out_assignment (projr (fst (forward (emd_forward (\<lambda>i j. 0)) new_ctx
        (torch_zeros [1, 1024, 3] None) (torch_zeros [1, 1024, 3] None) 0.005 50)))) [0, 0] < 1024))"
proof -
  have sh: "shape (torch_zeros [1, 1024, 3] None :: real tensor) = [1, 1024, 3]"
    by (simp add: torch_zeros_def)
  have "(1024::nat) mod 1024 = 0" and "(1::nat) \<le> 512" by simp_all
  from forward_assignment_in_range_injective
         [where reg = "\<lambda>i j. 0" and eps = "0.005" and iters = 50 and c = new_ctx, OF sh sh this]
  show ?thesis by simp
qed

end
